theory Spec2Isabelle
  imports Complex_Main "HOL-Library.Word"
begin

unbundle bit_operations_syntax

section \<open>The intercom card: data model\<close>

text \<open>
  A shallow embedding of the class \<open>IntercomCard\<close> of
  \<open>src/frontend/www/intercom-card.js\<close>. The object's fields are a record, every
  method is a function from the card before the call to the card after it. Three fields
  are ghost state that the JavaScript does not hold, they record what the card did to the
  outside world: \<open>outbox\<close> (the websocket messages handed to
  \<open>hass.connection\<close>, oldest first), \<open>scheduled\<close> (the calls of
  \<open>src.start\<close> on the playback context, oldest first) and \<open>err_el\<close>
  (the text of the DOM element \<open>#err\<close>, \<open>None\<close> while the element does
  not exist).

  Times are the seconds of \<open>AudioContext.currentTime\<close>. JavaScript holds them
  as doubles, the model as reals: rounding is not modelled.
\<close>

type_synonym byte = "8 word"
type_synonym int16 = "16 word"

text \<open>
  The JavaScript values the card compares and tests for truth: a string,
  \<open>undefined\<close> or \<open>null\<close>. \<open>===\<close> on them is equality of
  \<open>jsval\<close>. A value is falsy when it is \<open>undefined\<close>, \<open>null\<close> or
  the empty string.
\<close>

datatype jsval = Undefined | Null | Str string

fun truthy :: "jsval \<Rightarrow> bool" where
  "truthy (Str x) = (x \<noteq> [])"
| "truthy _ = False"

text \<open>The operator \<open>a || b\<close>.\<close>

definition js_or :: "jsval \<Rightarrow> jsval \<Rightarrow> jsval" where
  "js_or a b = (if truthy a then a else b)"

text \<open>The conversion to a string that \<open>atob\<close> applies to its argument.\<close>

fun toString :: "jsval \<Rightarrow> string" where
  "toString (Str x) = x"
| "toString Undefined = ''undefined''"
| "toString Null = ''null''"

text \<open>An entry of the device list that \<open>intercom_native/list_devices\<close> returns.\<close>

record device =
  device_id :: jsval
  esphome_id :: jsval
  name :: jsval
  host :: jsval

text \<open>The card configuration (\<open>this.config\<close>).\<close>

record config =
  cfg_entity_id :: jsval
  cfg_device_id :: jsval
  cfg_mode :: jsval

text \<open>
  One call of \<open>src.start(when)\<close>: the start time handed to the audio context and
  the samples of the buffer. \<open>clock\<close> is ghost: the value of
  \<open>currentTime\<close> at the moment of the call.
\<close>

record play =
  start_at :: real
  clock :: real
  samples :: "real list"

text \<open>
  The websocket messages the card sends: \<open>list_devices\<close>,
  \<open>start\<close> (device id, host), \<open>stop\<close> (device id), \<open>bridge\<close>
  (source id, source host, destination id, destination host) and \<open>audio\<close>
  (device id, base64 payload).
\<close>

datatype message =
    ListDevices
  | Start jsval jsval
  | Stop jsval
  | Bridge jsval jsval jsval jsval
  | Audio jsval string

record card =
  config :: "config option"
  hass :: bool
  active :: bool
  ringing :: bool
  stopping :: bool
  starting :: bool
  audioContext :: bool
  mediaStream :: bool
  workletNode :: bool
  source :: bool
  playbackContext :: bool
  gainNode :: bool
  nextPlayTime :: real
  chunksDropped :: nat
  unsubscribeAudio :: bool
  unsubscribeState :: bool
  chunksSent :: nat
  chunksReceived :: nat
  activeDeviceInfo :: "device option"
  availableDevices :: "device list"
  selectedDestination :: jsval
  err_el :: "string option"
  outbox :: "message list"
  scheduled :: "play list"

text \<open>
  The object fields that hold a browser object or \<open>null\<close> (\<open>_audioContext\<close>,
  \<open>_mediaStream\<close>, \<open>_workletNode\<close>, \<open>_source\<close>,
  \<open>_playbackContext\<close>, \<open>_gainNode\<close>, the two unsubscribe functions and
  \<open>_hass\<close>) are booleans: \<open>True\<close> when the field holds an object.
  \<open>_activeDeviceInfo\<close> is \<open>None\<close> when it is \<open>null\<close>,
  \<open>config\<close> is \<open>None\<close> while it is undefined.
\<close>

text \<open>The constructor; \<open>this.config\<close> is still undefined.\<close>

definition constructor :: card where
  "constructor =
    \<lparr>config = None,
     hass = False, active = False, ringing = False, stopping = False, starting = False,
     audioContext = False, mediaStream = False, workletNode = False, source = False,
     playbackContext = False, gainNode = False, nextPlayTime = 0, chunksDropped = 0,
     unsubscribeAudio = False, unsubscribeState = False, chunksSent = 0, chunksReceived = 0,
     activeDeviceInfo = None, availableDevices = [], selectedDestination = Null,
     err_el = None, outbox = [], scheduled = []\<rparr>"

text \<open>
  \<open>_getConfigDeviceId\<close> and \<open>_isPtmpMode\<close> read the configuration with
  \<open>?.\<close>: an undefined configuration gives \<open>undefined\<close>.
\<close>

definition getConfigDeviceId :: "card \<Rightarrow> jsval" where
  "getConfigDeviceId s =
    (case config s of
       None \<Rightarrow> Undefined
     | Some c \<Rightarrow> js_or (cfg_entity_id c) (cfg_device_id c))"

definition isPtmpMode :: "card \<Rightarrow> bool" where
  "isPtmpMode s = (case config s of None \<Rightarrow> False | Some c \<Rightarrow> cfg_mode c = Str ''ptmp'')"

text \<open>
  \<open>_render\<close> replaces the shadow DOM. Of the DOM the model keeps the error line
  only: the unconfigured card has no \<open>#err\<close> element, the configured card gets a
  fresh, empty one. \<open>_updateStats\<close> writes the statistics line only and is left out.
\<close>

definition render :: "card \<Rightarrow> card" where
  "render s = s\<lparr>err_el := (if truthy (getConfigDeviceId s) then Some [] else None)\<rparr>"

definition showError :: "string \<Rightarrow> card \<Rightarrow> card" where
  "showError msg s = (case err_el s of None \<Rightarrow> s | Some _ \<Rightarrow> s\<lparr>err_el := Some msg\<rparr>)"

definition setConfig :: "config \<Rightarrow> card \<Rightarrow> card" where
  "setConfig cfg s = render (s\<lparr>config := Some cfg\<rparr>)"

text \<open>The \<open>onchange\<close> handler of the destination selector.\<close>

definition selectDestination :: "string \<Rightarrow> card \<Rightarrow> card" where
  "selectDestination v s = render (s\<lparr>selectedDestination := js_or (Str v) Null\<rparr>)"

section \<open>The jitter playback buffer\<close>

text \<open>
  \<open>_playScheduled\<close>. \<open>now\<close> is the reading of
  \<open>this._playbackContext.currentTime\<close>. \<open>createBuffer\<close> raises
  \<open>NotSupportedError\<close> for a length of 0 (Web Audio: the length must be at least 1);
  the \<open>catch\<close> of the method swallows it, so an empty chunk leaves the card as it
  was. The buffer's duration is its length over its sample rate, 16000.
\<close>

definition playScheduled :: "real \<Rightarrow> real list \<Rightarrow> card \<Rightarrow> card" where
  "playScheduled now float32 s =
    (if \<not> playbackContext s \<or> \<not> gainNode s then s
     else if length float32 = 0 then s
     else
       let duration = real (length float32) / 16000;
           s1 = (if nextPlayTime s < now then s\<lparr>nextPlayTime := now + 0.01\<rparr> else s)
       in if nextPlayTime s1 - now > 0.2
          then s1\<lparr>chunksDropped := chunksDropped s1 + 1, nextPlayTime := now + 0.02\<rparr>
          else s1\<lparr>scheduled := scheduled s1 @
                        [\<lparr>start_at = nextPlayTime s1, clock = now, samples = float32\<rparr>],
                    nextPlayTime := nextPlayTime s1 + duration\<rparr>)"

text \<open>
  A run of the buffer: the chunks reach \<open>_playScheduled\<close> one after the other, each
  with the clock reading at its arrival.
\<close>

fun playAll :: "(real \<times> real list) list \<Rightarrow> card \<Rightarrow> card" where
  "playAll [] s = s"
| "playAll ((now, float32) # rest) s = playAll rest (playScheduled now float32 s)"

section \<open>The audio payload: 16-bit PCM in base64\<close>

subsection \<open>The browser's \<open>btoa\<close> and \<open>atob\<close>\<close>

text \<open>
  Both are functions of the browser, modelled after the HTML standard. A binary string (a
  string whose character codes are below 256) is a list of bytes. \<open>btoa\<close> is the
  base64 encoding with padding: three bytes give four characters of six bits each.
\<close>

definition b64alphabet :: string where
  "b64alphabet = ''ABCDEFGHIJKLMNOPQRSTUVWXYZabcdefghijklmnopqrstuvwxyz0123456789+/''"

definition b64char :: "nat \<Rightarrow> char" where
  "b64char n = b64alphabet ! n"

fun index_of :: "'a \<Rightarrow> 'a list \<Rightarrow> nat option" where
  "index_of x [] = None"
| "index_of x (y # ys) = (if x = y then Some 0 else map_option Suc (index_of x ys))"

definition b64val :: "char \<Rightarrow> nat option" where
  "b64val c = index_of c b64alphabet"

fun sextets :: "byte list \<Rightarrow> nat list" where
  "sextets (a # b # c # rest) =
     [unat a div 4, unat a mod 4 * 16 + unat b div 16, unat b mod 16 * 4 + unat c div 64, unat c mod 64]
       @ sextets rest"
| "sextets [a, b] = [unat a div 4, unat a mod 4 * 16 + unat b div 16, unat b mod 16 * 4]"
| "sextets [a] = [unat a div 4, unat a mod 4 * 16]"
| "sextets [] = []"

definition btoa :: "byte list \<Rightarrow> string" where
  "btoa binary =
     map b64char (sextets binary) @ replicate ((3 - length binary mod 3) mod 3) (CHR ''='')"

text \<open>
  \<open>atob\<close> is the standard's forgiving-base64 decode: ASCII whitespace is removed; if
  the length is then a multiple of 4, one or two \<open>=\<close> at the end are removed; a
  length of 1 modulo 4 or a character outside the alphabet is an error
  (\<open>InvalidCharacterError\<close>, here \<open>None\<close>); the six-bit values are joined and
  cut into bytes, leftover bits dropped.
\<close>

definition ascii_whitespace :: "char \<Rightarrow> bool" where
  "ascii_whitespace c = (c \<in> set [CHR 0x09, CHR 0x0A, CHR 0x0C, CHR 0x0D, CHR 0x20])"

definition strip_padding :: "string \<Rightarrow> string" where
  "strip_padding d =
     (if 2 \<le> length d \<and> last d = CHR ''='' \<and> last (butlast d) = CHR ''='' then butlast (butlast d)
      else if d \<noteq> [] \<and> last d = CHR ''='' then butlast d
      else d)"

fun octets :: "nat list \<Rightarrow> byte list" where
  "octets (p # q # r # s # rest) =
     [of_nat (p * 4 + q div 16), of_nat (q mod 16 * 16 + r div 4), of_nat (r mod 4 * 64 + s)]
       @ octets rest"
| "octets [p, q, r] = [of_nat (p * 4 + q div 16), of_nat (q mod 16 * 16 + r div 4)]"
| "octets [p, q] = [of_nat (p * 4 + q div 16)]"
| "octets _ = []"

definition atob :: "string \<Rightarrow> byte list option" where
  "atob data =
    (let d1 = filter (\<lambda>c. \<not> ascii_whitespace c) data;
         d2 = (if length d1 mod 4 = 0 then strip_padding d1 else d1)
     in if length d2 mod 4 = 1 then None
        else map_option octets (those (map b64val d2)))"

subsection \<open>Typed arrays\<close>

text \<open>
  \<open>new Uint8Array(int16Array.buffer)\<close>: the bytes of the samples in the byte order of
  the platform, which is little-endian wherever the card runs: low byte first.
\<close>

definition toUint8Array :: "int16 list \<Rightarrow> byte list" where
  "toUint8Array int16Array = concat (map (\<lambda>w. [ucast w, ucast (drop_bit 8 w)]) int16Array)"

text \<open>
  \<open>new Int16Array(bytes.buffer)\<close>: raises \<open>RangeError\<close> (here \<open>None\<close>) when
  the number of bytes is odd.
\<close>

fun toInt16Array :: "byte list \<Rightarrow> int16 list option" where
  "toInt16Array [] = Some []"
| "toInt16Array [b] = None"
| "toInt16Array (lo # hi # rest) =
     map_option ((#) (ucast lo OR push_bit 8 (ucast hi))) (toInt16Array rest)"

definition subarray :: "nat \<Rightarrow> nat \<Rightarrow> byte list \<Rightarrow> byte list" where
  "subarray i j bytes = take (j - i) (drop i bytes)"

text \<open>
  The loop of \<open>_sendAudio\<close> that builds the binary string, 0x8000 bytes at a time.
\<close>

function fromCharCodeLoop :: "nat \<Rightarrow> byte list \<Rightarrow> byte list \<Rightarrow> byte list" where
  "fromCharCodeLoop i bytes binary =
     (if i < length bytes
      then fromCharCodeLoop (i + 0x8000) bytes
             (binary @ subarray i (min (i + 0x8000) (length bytes)) bytes)
      else binary)"
  by pat_completeness auto
termination
  by (relation "measure (\<lambda>(i, bytes, binary). length bytes - i)") auto

declare fromCharCodeLoop.simps [simp del]

text \<open>
  The two halves of the payload's path. \<open>encodeAudio\<close> is what \<open>_sendAudio\<close> puts
  in the field \<open>audio\<close> of its message; \<open>decodeAudio\<close> is what
  \<open>_handleAudioEvent\<close> makes of the field \<open>audio\<close> of an event, up to the
  \<open>Int16Array\<close>.
\<close>

definition encodeAudio :: "int16 list \<Rightarrow> string" where
  "encodeAudio int16Array = btoa (fromCharCodeLoop 0 (toUint8Array int16Array) [])"

definition decodeAudio :: "string \<Rightarrow> int16 list option" where
  "decodeAudio audio = (case atob audio of None \<Rightarrow> None | Some bytes \<Rightarrow> toInt16Array bytes)"

section \<open>Sending and receiving audio\<close>

text \<open>
  \<open>_sendAudio\<close>. Without \<open>_hass\<close> the send raises a \<open>TypeError\<close> that nothing
  catches: the method ends there, the card unchanged.
\<close>

definition sendAudio :: "int16 list \<Rightarrow> card \<Rightarrow> card" where
  "sendAudio int16Array s =
    (if \<not> active s then s
     else case activeDeviceInfo s of
       None \<Rightarrow> s
     | Some info \<Rightarrow>
         if \<not> hass s then s
         else s\<lparr>outbox := outbox s @ [Audio (device_id info) (encodeAudio int16Array)],
                chunksSent := chunksSent s + 1\<rparr>)"

text \<open>The field \<open>data\<close> of an \<open>intercom_audio\<close> event.\<close>

record audio_data =
  ad_device_id :: jsval
  ad_audio :: jsval

text \<open>
  \<open>_handleAudioEvent\<close>; \<open>None\<close> is an event without \<open>data\<close>. An error of
  \<open>atob\<close> or of the \<open>Int16Array\<close> constructor is swallowed by the
  \<open>catch\<close>, after the event has been counted. The samples are scaled by 1/32768.
\<close>

definition handleAudioEvent :: "real \<Rightarrow> audio_data option \<Rightarrow> card \<Rightarrow> card" where
  "handleAudioEvent now event_data s =
    (case event_data of
       None \<Rightarrow> s
     | Some data \<Rightarrow>
        (case activeDeviceInfo s of
           None \<Rightarrow> s
         | Some info \<Rightarrow>
            if ad_device_id data \<noteq> device_id info then s
            else if \<not> active s \<or> \<not> playbackContext s then s
            else
              let s1 = s\<lparr>chunksReceived := chunksReceived s + 1\<rparr> in
              (case decodeAudio (toString (ad_audio data)) of
                 None \<Rightarrow> s1
               | Some int16 \<Rightarrow>
                   playScheduled now (map (\<lambda>w. real_of_int (sint w) / 32768) int16) s1)))"

section \<open>Ending a call\<close>

text \<open>
  \<open>_cleanup\<close>. Each guarded release leaves its field \<open>null\<close>, whether it held an
  object or not. The promises of \<open>close()\<close> carry a \<open>catch\<close> and are taken to
  settle.
\<close>

definition cleanup :: "card \<Rightarrow> card" where
  "cleanup s =
    s\<lparr>unsubscribeAudio := False, unsubscribeState := False, mediaStream := False,
      workletNode := False, source := False, audioContext := False, playbackContext := False,
      gainNode := False, nextPlayTime := 0, chunksDropped := 0, ringing := False\<rparr>"

text \<open>
  \<open>_hangup\<close> is asynchronous. \<open>hangup_begin\<close> is the part that runs at once, up
  to the \<open>await\<close> of the stop request: the card shows \<open>stopping\<close> and the
  request is on its way (without \<open>_hass\<close> the send raises, which the empty
  \<open>catch\<close> swallows). \<open>hangup_end\<close> is the part that runs when the request has
  settled, whatever its outcome. \<open>hangup\<close> is the whole method.
\<close>

definition hangup_begin :: "card \<Rightarrow> card" where
  "hangup_begin s =
    (let s1 = render (s\<lparr>stopping := True\<rparr>) in
     case activeDeviceInfo s1 of
       None \<Rightarrow> s1
     | Some info \<Rightarrow> if hass s1 then s1\<lparr>outbox := outbox s1 @ [Stop (device_id info)]\<rparr> else s1)"

definition hangup_end :: "card \<Rightarrow> card" where
  "hangup_end s =
    render ((cleanup s)\<lparr>active := False, ringing := False, stopping := False,
                        activeDeviceInfo := None\<rparr>)"

definition hangup :: "card \<Rightarrow> card" where
  "hangup s = hangup_end (hangup_begin s)"

section \<open>State events\<close>

text \<open>
  The field \<open>data\<close> of an \<open>intercom_state\<close> event and of an
  \<open>intercom_bridge_state\<close> event.
\<close>

record state_data =
  sd_device_id :: jsval
  sd_state :: jsval

record bridge_state_data =
  bd_source_device_id :: jsval
  bd_dest_device_id :: jsval
  bd_state :: jsval

text \<open>
  \<open>_handleStateEvent\<close> and \<open>_handleBridgeStateEvent\<close>. Both start
  \<open>_hangup\<close> without waiting for it; the model runs it to its end before the next
  event.
\<close>

definition handleStateEvent :: "state_data option \<Rightarrow> card \<Rightarrow> card" where
  "handleStateEvent event_data s =
    (case event_data of
       None \<Rightarrow> s
     | Some data \<Rightarrow>
        (case activeDeviceInfo s of
           None \<Rightarrow> s
         | Some info \<Rightarrow>
            if sd_device_id data \<noteq> device_id info then s
            else if sd_state data = Str ''streaming''
              then render (s\<lparr>ringing := False, active := True\<rparr>)
            else if sd_state data = Str ''ringing''
              then render (s\<lparr>ringing := True, active := False\<rparr>)
            else if sd_state data = Str ''disconnected'' then hangup s
            else s))"

definition handleBridgeStateEvent :: "bridge_state_data option \<Rightarrow> card \<Rightarrow> card" where
  "handleBridgeStateEvent event_data s =
    (case event_data of
       None \<Rightarrow> s
     | Some data \<Rightarrow>
        (case activeDeviceInfo s of
           None \<Rightarrow> s
         | Some info \<Rightarrow>
            if bd_source_device_id data \<noteq> device_id info
               \<and> bd_dest_device_id data \<noteq> selectedDestination s then s
            else if bd_state data = Str ''connected'' then render (s\<lparr>active := True\<rparr>)
            else if bd_state data = Str ''disconnected'' then hangup s
            else s))"

section \<open>The device list\<close>

text \<open>
  What an awaited promise of the environment settles to: a value, or a rejection with
  the text that \<open>err.message || String(err)\<close> gives.
\<close>

datatype 'a reply = Resolved 'a | Rejected string

text \<open>
  The answers of the environment during one method. The answer to
  \<open>list_devices\<close> is \<open>Resolved None\<close> when the result is empty or has no
  \<open>devices\<close>.
\<close>

record start_result =
  sr_success :: bool
  sr_state :: jsval

record bridge_result =
  br_success :: bool
  br_error :: jsval

record env =
  list_devices_reply :: "device list option reply"
  getUserMedia_reply :: "unit reply"
  addModule_reply :: "unit reply"
  start_reply :: "start_result reply"
  subscribeAudio_reply :: "unit reply"
  subscribeState_reply :: "unit reply"
  bridge_reply :: "bridge_result reply"

text \<open>
  \<open>name.toLowerCase().replace(/\<bslash>s+/g, '-')\<close>. A character of the model is a
  code point below 256. Of these \<open>toLowerCase\<close> lowers the letters A to Z (65 to 90)
  and the capital letters U+00C0 to U+00DE (192 to 222) except the multiplication sign U+00D7
  (215), each to the code point 32 above it; \<open>\<bslash>s\<close> matches tab, line feed,
  vertical tab, form feed, carriage return, space and the no-break space U+00A0 (160). Every
  run of white space becomes one hyphen.
\<close>

definition toLowerCase :: "string \<Rightarrow> string" where
  "toLowerCase =
     map (\<lambda>c. if (65 \<le> (of_char c :: nat) \<and> (of_char c :: nat) \<le> 90)
                 \<or> (192 \<le> (of_char c :: nat) \<and> (of_char c :: nat) \<le> 222
                     \<and> (of_char c :: nat) \<noteq> 215)
              then char_of (of_char c + 32 :: nat) else c)"

definition white_space :: "char \<Rightarrow> bool" where
  "white_space c = ((of_char c :: nat) \<in> set [9, 10, 11, 12, 13, 32, 160])"

function replaceSpaces :: "string \<Rightarrow> string" where
  "replaceSpaces [] = []"
| "replaceSpaces (c # cs) =
     (if white_space c then CHR ''-'' # replaceSpaces (dropWhile white_space cs)
      else c # replaceSpaces cs)"
  by pat_completeness auto
termination
  by (relation "measure length") (auto simp add: less_Suc_eq_le length_dropWhile_le)

text \<open>The test of \<open>find\<close> in \<open>_getDeviceInfo\<close>.\<close>

definition deviceMatches :: "jsval \<Rightarrow> device \<Rightarrow> bool" where
  "deviceMatches configId d =
    (device_id d = configId \<or> esphome_id d = configId \<or> name d = configId
     \<or> (case name d of Str n \<Rightarrow> Str (replaceSpaces (toLowerCase n)) | _ \<Rightarrow> Undefined)
         = configId)"

text \<open>
  \<open>_getDeviceInfo\<close>: the device and the card with the request in its outbox. Without
  \<open>_hass\<close> the send raises inside the \<open>try\<close> and the result is \<open>null\<close>;
  so it is when the configuration is undefined, which is read here without \<open>?.\<close>.
\<close>

definition getDeviceInfo :: "device list option reply \<Rightarrow> card \<Rightarrow> device option \<times> card" where
  "getDeviceInfo r s =
    (if \<not> hass s then (None, s)
     else
       let s1 = s\<lparr>outbox := outbox s @ [ListDevices]\<rparr> in
       case r of
         Resolved (Some devices) \<Rightarrow>
           (case config s1 of
              None \<Rightarrow> (None, s1)
            | Some c \<Rightarrow>
                (find (deviceMatches (js_or (cfg_entity_id c) (cfg_device_id c))) devices, s1))
       | _ \<Rightarrow> (None, s1))"

definition loadAvailableDevices :: "device list option reply \<Rightarrow> card \<Rightarrow> card" where
  "loadAvailableDevices r s =
    (if \<not> hass s then s
     else
       let s1 = s\<lparr>outbox := outbox s @ [ListDevices]\<rparr> in
       case r of
         Resolved (Some devices) \<Rightarrow>
           render (s1\<lparr>availableDevices :=
                         filter (\<lambda>d. device_id d \<noteq> getConfigDeviceId s1) devices\<rparr>)
       | _ \<Rightarrow> s1)"

text \<open>The setter of \<open>hass\<close>; the boolean says whether the new value is an object.\<close>

definition set_hass :: "bool \<Rightarrow> device list option reply \<Rightarrow> card \<Rightarrow> card" where
  "set_hass h r s =
    (let s1 = s\<lparr>hass := h\<rparr> in
     if h \<and> isPtmpMode s1 \<and> length (availableDevices s1) = 0
     then loadAvailableDevices r s1 else s1)"

section \<open>Starting a call, a bridge, and the button\<close>

text \<open>
  \<open>_call\<close> is asynchronous. \<open>call_begin\<close> is the code between the device lookup
  and the \<open>try\<close>: the card shows \<open>starting\<close>. \<open>call_finish\<close> is the
  \<open>try\<close> block with its \<open>catch\<close> (\<open>call_catch\<close>), run against the answers
  of the environment; the constructors and the other methods of the Web Audio objects are
  taken to succeed.
\<close>

definition call_catch :: "string \<Rightarrow> card \<Rightarrow> card" where
  "call_catch msg s = render ((cleanup (showError msg s))\<lparr>starting := False\<rparr>)"

definition call_begin :: "device \<Rightarrow> card \<Rightarrow> card" where
  "call_begin deviceInfo s =
    (showError [] (render (s\<lparr>activeDeviceInfo := Some deviceInfo, starting := True\<rparr>)))
      \<lparr>chunksSent := 0, chunksReceived := 0\<rparr>"

definition call_finish :: "env \<Rightarrow> device \<Rightarrow> card \<Rightarrow> card" where
  "call_finish e deviceInfo s =
    (case getUserMedia_reply e of
       Rejected msg \<Rightarrow> call_catch msg s
     | Resolved _ \<Rightarrow>
        let s1 = s\<lparr>mediaStream := True, audioContext := True\<rparr> in
        (case addModule_reply e of
           Rejected msg \<Rightarrow> call_catch msg s1
         | Resolved _ \<Rightarrow>
            let s2 = s1\<lparr>source := True, workletNode := True, playbackContext := True,
                        gainNode := True\<rparr> in
            if \<not> hass s2 then call_catch ''TypeError'' s2
            else
              let s3 = s2\<lparr>outbox := outbox s2 @ [Start (device_id deviceInfo) (host deviceInfo)]\<rparr> in
              (case start_reply e of
                 Rejected msg \<Rightarrow> call_catch msg s3
               | Resolved result \<Rightarrow>
                  if \<not> sr_success result then call_catch ''Start failed'' s3
                  else
                    (case subscribeAudio_reply e of
                       Rejected msg \<Rightarrow> call_catch msg s3
                     | Resolved _ \<Rightarrow>
                        let s4 = s3\<lparr>unsubscribeAudio := True\<rparr> in
                        (case subscribeState_reply e of
                           Rejected msg \<Rightarrow> call_catch msg s4
                         | Resolved _ \<Rightarrow>
                            let s5 = s4\<lparr>unsubscribeState := True\<rparr>;
                                s6 = (if sr_state result = Str ''ringing''
                                      then s5\<lparr>ringing := True, active := False\<rparr>
                                      else s5\<lparr>active := True, ringing := False\<rparr>)
                            in render (s6\<lparr>starting := False\<rparr>))))))"

definition call :: "env \<Rightarrow> card \<Rightarrow> card" where
  "call e s0 =
    (case getDeviceInfo (list_devices_reply e) s0 of
       (None, s) \<Rightarrow> showError ''Device IP not available'' s
     | (Some deviceInfo, s) \<Rightarrow>
         if \<not> truthy (host deviceInfo) then showError ''Device IP not available'' s
         else call_finish e deviceInfo (call_begin deviceInfo s))"

text \<open>
  The first \<open>await\<close> of \<open>_call\<close> is the device lookup, before
  \<open>_starting\<close> is set. \<open>lookup_pending\<close> is the card while
  \<open>_getDeviceInfo\<close> waits for its answer: the request is sent, nothing else has changed.
  \<open>call_resume\<close> is \<open>_call\<close> from the result of the lookup on.
\<close>

definition lookup_pending :: "card \<Rightarrow> card" where
  "lookup_pending s = (if \<not> hass s then s else s\<lparr>outbox := outbox s @ [ListDevices]\<rparr>)"

definition call_resume :: "env \<Rightarrow> device option \<Rightarrow> card \<Rightarrow> card" where
  "call_resume e d s =
    (case d of
       None \<Rightarrow> showError ''Device IP not available'' s
     | Some deviceInfo \<Rightarrow>
         if \<not> truthy (host deviceInfo) then showError ''Device IP not available'' s
         else call_finish e deviceInfo (call_begin deviceInfo s))"

text \<open>
  \<open>_bridge\<close>, in the same three parts. Its \<open>catch\<close> shows the error and renders,
  with no clean-up.
\<close>

definition bridge_catch :: "string \<Rightarrow> card \<Rightarrow> card" where
  "bridge_catch msg s = render ((showError msg s)\<lparr>starting := False\<rparr>)"

definition bridge_begin :: "device \<Rightarrow> card \<Rightarrow> card" where
  "bridge_begin sourceDeviceInfo s =
    showError [] (render (s\<lparr>activeDeviceInfo := Some sourceDeviceInfo, starting := True\<rparr>))"

definition bridge_finish :: "env \<Rightarrow> device \<Rightarrow> device \<Rightarrow> card \<Rightarrow> card" where
  "bridge_finish e sourceDeviceInfo destDevice s =
    (if \<not> hass s then bridge_catch ''TypeError'' s
     else
       let s1 = s\<lparr>outbox := outbox s @
                     [Bridge (device_id sourceDeviceInfo) (host sourceDeviceInfo)
                             (device_id destDevice) (host destDevice)]\<rparr> in
       (case bridge_reply e of
          Rejected msg \<Rightarrow> bridge_catch msg s1
        | Resolved result \<Rightarrow>
           if \<not> br_success result
           then bridge_catch (toString (js_or (br_error result) (Str ''Bridge failed''))) s1
           else
             (case subscribeState_reply e of
                Rejected msg \<Rightarrow> bridge_catch msg s1
              | Resolved _ \<Rightarrow>
                 render (s1\<lparr>unsubscribeState := True, active := True, starting := False\<rparr>))))"

definition bridge :: "env \<Rightarrow> card \<Rightarrow> card" where
  "bridge e s0 =
    (case getDeviceInfo (list_devices_reply e) s0 of
       (None, s) \<Rightarrow> showError ''Source device IP not available'' s
     | (Some sourceDeviceInfo, s) \<Rightarrow>
         if \<not> truthy (host sourceDeviceInfo)
         then showError ''Source device IP not available'' s
         else
           (case find (\<lambda>d. device_id d = selectedDestination s) (availableDevices s) of
              None \<Rightarrow> showError ''Destination device not selected or IP not available'' s
            | Some destDevice \<Rightarrow>
                if \<not> truthy (host destDevice)
                then showError ''Destination device not selected or IP not available'' s
                else bridge_finish e sourceDeviceInfo destDevice
                       (bridge_begin sourceDeviceInfo s)))"

text \<open>\<open>_toggle\<close>, the \<open>onclick\<close> handler of the button.\<close>

definition toggle :: "env \<Rightarrow> card \<Rightarrow> card" where
  "toggle e s =
    (if starting s \<or> stopping s then s
     else if active s \<or> ringing s then hangup s
     else if isPtmpMode s then bridge e s
     else call e s)"

section \<open>Vocabulary of the properties\<close>

text \<open>The duration of a chunk at 16000 samples a second, as \<open>buffer.duration\<close>.\<close>

definition chunkDuration :: "real list \<Rightarrow> real" where
  "chunkDuration float32 = real (length float32) / 16000"

text \<open>
  Chunks that arrive one chunk duration apart: the first at \<open>t\<close>, each later one when
  the chunk before it has lasted.
\<close>

fun nominalArrivals :: "real \<Rightarrow> real list list \<Rightarrow> (real \<times> real list) list" where
  "nominalArrivals t [] = []"
| "nominalArrivals t (c # cs) = (t, c) # nominalArrivals (t + chunkDuration c) cs"

text \<open>
  Back-to-back playback of the same chunks from the start time \<open>st\<close>: each chunk starts
  when the one before it ends.
\<close>

fun backToBack :: "real \<Rightarrow> real \<Rightarrow> real list list \<Rightarrow> play list" where
  "backToBack st t [] = []"
| "backToBack st t (c # cs) =
     \<lparr>start_at = st, clock = t, samples = c\<rparr>
       # backToBack (st + chunkDuration c) (t + chunkDuration c) cs"

text \<open>
  A call of \<open>src.start\<close> is on time when its start time is not before the clock and
  at most the maximum lookahead, 0.2 seconds, after it.
\<close>

definition onTime :: "play \<Rightarrow> bool" where
  "onTime p = (clock p \<le> start_at p \<and> start_at p \<le> clock p + 0.2)"

text \<open>
  A card on which only the playback path exists, its cursor \<open>_nextPlayTime\<close> at
  \<open>t\<close>: the concrete card of the examples below.
\<close>

definition jitter_card :: "real \<Rightarrow> card" where
  "jitter_card t = constructor\<lparr>playbackContext := True, gainNode := True, nextPlayTime := t\<rparr>"

text \<open>
  \<open>!d || !d.host\<close>, the test of \<open>_bridge\<close> for an endpoint whose network
  address is unknown: no device, or a device without a host.
\<close>

definition noHost :: "device option \<Rightarrow> bool" where
  "noHost d = (case d of None \<Rightarrow> True | Some x \<Rightarrow> \<not> truthy (host x))"

text \<open>
  A card that holds no subscription and no audio resource, and a card that is back in its
  idle state: not in a call, not ringing, not stopping, no active device.
\<close>

definition released :: "card \<Rightarrow> bool" where
  "released s =
    (\<not> unsubscribeAudio s \<and> \<not> unsubscribeState s \<and> \<not> mediaStream s \<and> \<not> workletNode s
     \<and> \<not> source s \<and> \<not> audioContext s \<and> \<not> playbackContext s \<and> \<not> gainNode s)"

definition idle :: "card \<Rightarrow> bool" where
  "idle s = (\<not> active s \<and> \<not> ringing s \<and> \<not> stopping s \<and> activeDeviceInfo s = None)"

text \<open>
  The concrete world of the examples: two devices, an environment in which every request
  succeeds (its argument is the \<open>state\<close> of the answer to \<open>start\<close>), one in which
  the first device has no host, and cards configured for the first device: in P2P mode, in
  PTMP mode with the second device selected, in PTMP mode with nothing selected, and in PTMP
  mode configured by the device's name.
\<close>

definition kitchen :: device where
  "kitchen = \<lparr>device_id = Str ''abc123'', esphome_id = Str ''kitchen-esp'',
              name = Str ''Kitchen'', host = Str ''10.0.0.5''\<rparr>"

definition hall :: device where
  "hall = \<lparr>device_id = Str ''def456'', esphome_id = Str ''hall-esp'',
           name = Str ''Hall'', host = Str ''10.0.0.6''\<rparr>"

definition ok_env :: "jsval \<Rightarrow> env" where
  "ok_env st =
    \<lparr>list_devices_reply = Resolved (Some [kitchen, hall]),
     getUserMedia_reply = Resolved (), addModule_reply = Resolved (),
     start_reply = Resolved \<lparr>sr_success = True, sr_state = st\<rparr>,
     subscribeAudio_reply = Resolved (), subscribeState_reply = Resolved (),
     bridge_reply = Resolved \<lparr>br_success = True, br_error = Undefined\<rparr>\<rparr>"

definition no_host_env :: env where
  "no_host_env =
    (ok_env Undefined)\<lparr>list_devices_reply := Resolved (Some [kitchen\<lparr>host := Null\<rparr>, hall])\<rparr>"

definition p2p_card :: card where
  "p2p_card =
    set_hass True (Resolved (Some [kitchen, hall]))
      (setConfig \<lparr>cfg_entity_id = Str ''abc123'', cfg_device_id = Undefined, cfg_mode = Undefined\<rparr>
         constructor)"

definition unselected_card :: card where
  "unselected_card =
    set_hass True (Resolved (Some [kitchen, hall]))
      (setConfig \<lparr>cfg_entity_id = Str ''abc123'', cfg_device_id = Undefined, cfg_mode = Str ''ptmp''\<rparr>
         constructor)"

definition ptmp_card :: card where
  "ptmp_card = selectDestination ''def456'' unselected_card"

definition named_card :: card where
  "named_card =
    set_hass True (Resolved (Some [kitchen, hall]))
      (setConfig \<lparr>cfg_entity_id = Str ''Kitchen'', cfg_device_id = Undefined, cfg_mode = Str ''ptmp''\<rparr>
         constructor)"

text \<open>
  Events for the first device: an audio event whose payload is the base64 of the samples
  1 and -2, a state event, a state event of the bridge from the first device to the second,
  and a state event of a bridge from a third device to the second.
\<close>

definition pcm_event :: audio_data where
  "pcm_event = \<lparr>ad_device_id = Str ''abc123'', ad_audio = Str ''AQD+/w==''\<rparr>"

definition state_event :: "string \<Rightarrow> state_data" where
  "state_event st = \<lparr>sd_device_id = Str ''abc123'', sd_state = Str st\<rparr>"

definition bridge_event :: "string \<Rightarrow> bridge_state_data" where
  "bridge_event st =
    \<lparr>bd_source_device_id = Str ''abc123'', bd_dest_device_id = Str ''def456'', bd_state = Str st\<rparr>"

definition foreign_bridge_event :: bridge_state_data where
  "foreign_bridge_event =
    \<lparr>bd_source_device_id = Str ''zzz999'', bd_dest_device_id = Str ''def456'',
     bd_state = Str ''disconnected''\<rparr>"

lemmas card_defs =
  constructor_def getConfigDeviceId_def isPtmpMode_def render_def showError_def setConfig_def
  selectDestination_def js_or_def cleanup_def hangup_begin_def hangup_end_def hangup_def
  handleStateEvent_def handleBridgeStateEvent_def deviceMatches_def getDeviceInfo_def
  loadAvailableDevices_def set_hass_def call_catch_def call_begin_def call_finish_def call_def
  bridge_catch_def bridge_begin_def bridge_finish_def bridge_def toggle_def sendAudio_def
  handleAudioEvent_def

lemmas example_defs =
  kitchen_def hall_def ok_env_def no_host_env_def p2p_card_def unselected_card_def
  ptmp_card_def named_card_def pcm_event_def state_event_def bridge_event_def
  foreign_bridge_event_def

section \<open>The jitter playback buffer: proofs\<close>

lemma playScheduled_contexts:
  "playbackContext (playScheduled now c s) = playbackContext s"
  "gainNode (playScheduled now c s) = gainNode s"
  by (simp_all add: playScheduled_def Let_def)

lemma playScheduled_lead:
  assumes "playbackContext s" and "gainNode s" and "c \<noteq> []"
  shows "nextPlayTime (playScheduled now c s) \<le> now + 0.2 + chunkDuration c"
  using assms by (auto simp add: playScheduled_def Let_def chunkDuration_def)

lemma playScheduled_onTime:
  "\<exists>new. scheduled (playScheduled now c s) = scheduled s @ new \<and> list_all onTime new"
  by (auto simp add: playScheduled_def Let_def onTime_def)

lemma gap_step:
  assumes ctx: "playbackContext s" "gainNode s"
    and c1: "c1 \<noteq> []" "length c1 \<le> 3200" and c2: "c2 \<noteq> []"
    and gap: "t2 - t1 > 0.2"
  shows "chunksDropped (playScheduled t2 c2 (playScheduled t1 c1 s))
           = chunksDropped (playScheduled t1 c1 s)"
    and "\<exists>st. t2 \<le> st \<and> st \<le> t2 + 0.2 \<and>
          scheduled (playScheduled t2 c2 (playScheduled t1 c1 s)) =
            scheduled (playScheduled t1 c1 s) @ [\<lparr>start_at = st, clock = t2, samples = c2\<rparr>]
          \<and> nextPlayTime (playScheduled t2 c2 (playScheduled t1 c1 s)) = st + chunkDuration c2"
proof -
  let ?s1 = "playScheduled t1 c1 s"
  have d1: "chunkDuration c1 \<le> 0.2" using c1 by (simp add: chunkDuration_def)
  have lead: "nextPlayTime ?s1 \<le> t1 + 0.2 + chunkDuration c1"
    using playScheduled_lead[OF ctx c1(1)] .
  have nd: "\<not> nextPlayTime ?s1 - t2 > 0.2" using lead d1 gap by linarith
  have ctx1: "playbackContext ?s1" "gainNode ?s1"
    using ctx by (simp_all add: playScheduled_contexts)
  show "chunksDropped (playScheduled t2 c2 ?s1) = chunksDropped ?s1"
    using nd ctx1 c2 by (auto simp add: playScheduled_def[of t2] Let_def)
  show "\<exists>st. t2 \<le> st \<and> st \<le> t2 + 0.2 \<and>
          scheduled (playScheduled t2 c2 ?s1) =
            scheduled ?s1 @ [\<lparr>start_at = st, clock = t2, samples = c2\<rparr>]
          \<and> nextPlayTime (playScheduled t2 c2 ?s1) = st + chunkDuration c2"
    using nd ctx1 c2 by (auto simp add: playScheduled_def[of t2] Let_def chunkDuration_def)
qed

lemma nominal_run:
  assumes "playbackContext s" and "gainNode s" and "\<forall>c \<in> set cs. c \<noteq> []"
    and "nextPlayTime s \<le> t + 0.2"
  shows "chunksDropped (playAll (nominalArrivals t cs) s) = chunksDropped s
       \<and> scheduled (playAll (nominalArrivals t cs) s) =
           scheduled s @ backToBack (if nextPlayTime s < t then t + 0.01 else nextPlayTime s) t cs"
  using assms
proof (induction cs arbitrary: s t)
  case Nil
  then show ?case by simp
next
  case (Cons c cs)
  let ?st = "if nextPlayTime s < t then t + 0.01 else nextPlayTime s"
  let ?s1 = "playScheduled t c s"
  have c: "c \<noteq> []" using Cons.prems by simp
  have step: "chunksDropped ?s1 = chunksDropped s"
    "scheduled ?s1 = scheduled s @ [\<lparr>start_at = ?st, clock = t, samples = c\<rparr>]"
    "nextPlayTime ?s1 = ?st + chunkDuration c"
    using Cons.prems c by (auto simp add: playScheduled_def Let_def chunkDuration_def)
  have ctx1: "playbackContext ?s1" "gainNode ?s1"
    using Cons.prems by (simp_all add: playScheduled_contexts)
  have rest: "\<forall>c \<in> set cs. c \<noteq> []" using Cons.prems by simp
  have lead: "nextPlayTime ?s1 \<le> (t + chunkDuration c) + 0.2"
    using step(3) Cons.prems(4) by auto
  have nores: "\<not> nextPlayTime ?s1 < t + chunkDuration c" using step(3) by auto
  from Cons.IH[OF ctx1 rest lead] nores step
  show ?case by simp
qed

lemma playAll_onTime:
  "\<exists>new. scheduled (playAll chunks s) = scheduled s @ new \<and> list_all onTime new"
proof (induction chunks arbitrary: s)
  case Nil
  then show ?case by simp
next
  case (Cons e chunks)
  obtain now c where e: "e = (now, c)" by (cases e)
  obtain n1 where n1: "scheduled (playScheduled now c s) = scheduled s @ n1" "list_all onTime n1"
    using playScheduled_onTime by blast
  obtain n2 where n2:
    "scheduled (playAll chunks (playScheduled now c s)) = scheduled (playScheduled now c s) @ n2"
    "list_all onTime n2"
    using Cons.IH by blast
  have "scheduled (playAll (e # chunks) s) = scheduled s @ (n1 @ n2)" using e n1 n2 by simp
  moreover have "list_all onTime (n1 @ n2)" using n1 n2 by simp
  ultimately show ?case by blast
qed

text \<open>
  Claim C1, as the code has it. A non-empty chunk that reaches \<open>_playScheduled\<close> while
  the playback context and the gain node exist is handled in one of two ways. If the cursor
  \<open>_nextPlayTime\<close> is more than 0.2 seconds ahead of the clock, the chunk is dropped:
  nothing is scheduled, the drop counter grows by one and the cursor is reset to the clock
  plus 0.02. Otherwise the chunk is scheduled at the cursor when the cursor is not behind
  the clock, and at the clock plus 0.01 when it is; the cursor then advances from that start
  time by exactly the chunk's duration, and the drop counter stays. The start time is
  \<open>max nextPlayTime (now + 0.01)\<close> whenever the cursor is behind the clock or at least
  0.01 ahead of it. An empty chunk is neither scheduled nor dropped: the card stays as it
  was.
\<close>

theorem playScheduled_schedules_or_drops:
  assumes "playbackContext s" and "gainNode s" and "float32 \<noteq> []"
  shows "(nextPlayTime s - now > 0.2 \<longrightarrow>
            playScheduled now float32 s =
              s\<lparr>chunksDropped := chunksDropped s + 1, nextPlayTime := now + 0.02\<rparr>)
       \<and> (\<not> nextPlayTime s - now > 0.2 \<longrightarrow>
            scheduled (playScheduled now float32 s) = scheduled s @
              [\<lparr>start_at = (if nextPlayTime s < now then now + 0.01 else nextPlayTime s),
                clock = now, samples = float32\<rparr>]
          \<and> nextPlayTime (playScheduled now float32 s) =
              (if nextPlayTime s < now then now + 0.01 else nextPlayTime s)
                + chunkDuration float32
          \<and> chunksDropped (playScheduled now float32 s) = chunksDropped s)
       \<and> (nextPlayTime s < now \<or> now + 0.01 \<le> nextPlayTime s \<longrightarrow>
            (if nextPlayTime s < now then now + 0.01 else nextPlayTime s)
              = max (nextPlayTime s) (now + 0.01))
       \<and> playScheduled now [] s = s"
  using assms by (auto simp add: playScheduled_def Let_def chunkDuration_def)

theorem playScheduled_schedules_or_drops_witness:
  "playbackContext (jitter_card 1.005) \<and> gainNode (jitter_card 1.005)
   \<and> replicate 320 (0::real) \<noteq> []
   \<and> \<not> nextPlayTime (jitter_card 1.005) - 1 > 0.2
   \<and> scheduled (playScheduled 1 (replicate 320 0) (jitter_card 1.005)) =
       [\<lparr>start_at = 1.005, clock = 1, samples = replicate 320 0\<rparr>]
   \<and> nextPlayTime (playScheduled 1 (replicate 320 0) (jitter_card 1.005)) = 1.025
   \<and> nextPlayTime (jitter_card 1.5) - 1 > 0.2
   \<and> playScheduled 1 (replicate 320 0) (jitter_card 1.5) =
       (jitter_card 1.5)\<lparr>chunksDropped := 1, nextPlayTime := 1.02\<rparr>
   \<and> nextPlayTime (jitter_card 0.5) < 1
   \<and> scheduled (playScheduled 1 (replicate 320 0) (jitter_card 0.5)) =
       [\<lparr>start_at = max (nextPlayTime (jitter_card 0.5)) (1 + 0.01), clock = 1,
         samples = replicate 320 0\<rparr>]
   \<and> playScheduled 1 [] (jitter_card 1.5) = jitter_card 1.5"
  using playScheduled_schedules_or_drops[of "jitter_card 1.005" "replicate 320 0" 1]
    playScheduled_schedules_or_drops[of "jitter_card 1.5" "replicate 320 0" 1]
    playScheduled_schedules_or_drops[of "jitter_card 0.5" "replicate 320 0" 1]
  by (simp add: jitter_card_def constructor_def chunkDuration_def)

text \<open>
  Claim C1 as the specification states it fails. With the clock at 1 and the cursor behind
  it, at 0.5, a chunk of 320 samples starts at 1.01, so the minimum lookahead is 0.01. With
  the clock at 1 and the cursor at 1.005 the chunk starts at 1.005, not at
  \<open>max nextPlayTime (now + 0.01) = 1.01\<close>. And an empty chunk is neither scheduled nor
  dropped, although the cursor, at 1.5, is more than 0.2 ahead of the clock: the card stays
  as it was.
\<close>

theorem playScheduled_not_max_counterexample:
  "map start_at (scheduled (playScheduled 1 (replicate 320 0) (jitter_card 0.5))) = [1 + 0.01]
   \<and> map start_at (scheduled (playScheduled 1 (replicate 320 0) (jitter_card 1.005))) = [1.005]
   \<and> max (nextPlayTime (jitter_card 1.005)) (1 + 0.01) = 1.01
   \<and> map start_at (scheduled (playScheduled 1 (replicate 320 0) (jitter_card 1.005)))
       \<noteq> [max (nextPlayTime (jitter_card 1.005)) (1 + 0.01)]
   \<and> nextPlayTime (jitter_card 1.5) - 1 > 0.2
   \<and> playScheduled 1 [] (jitter_card 1.5) = jitter_card 1.5"
  by (simp add: playScheduled_def jitter_card_def constructor_def)

text \<open>
  Claim C2, as the code has it, for a card whose playback context and gain node exist.
  First: when a chunk arrives more than 0.2 seconds after a chunk of at most 0.2 seconds
  (3200 samples), it is not dropped, the drop counter stays, and it is scheduled within one
  lookahead window of the clock, between the clock and the clock plus 0.2; the cursor ends
  one chunk duration after that start. Second: when chunks arrive exactly one chunk duration
  apart and the cursor starts at most 0.2 ahead of the clock, none is dropped and they are
  scheduled back to back, each starting when the one before it ends, the first at the
  cursor, or at the clock plus 0.01 when the cursor is behind the clock.
\<close>

theorem jitter_gaps_and_nominal_rate:
  assumes "playbackContext s" and "gainNode s"
  shows "(ca \<noteq> [] \<and> length ca \<le> 3200 \<and> cb \<noteq> [] \<and> tb - ta > 0.2 \<longrightarrow>
            chunksDropped (playAll [(ta, ca), (tb, cb)] s) = chunksDropped (playAll [(ta, ca)] s)
          \<and> (\<exists>st. tb \<le> st \<and> st \<le> tb + 0.2
               \<and> scheduled (playAll [(ta, ca), (tb, cb)] s) =
                   scheduled (playAll [(ta, ca)] s) @ [\<lparr>start_at = st, clock = tb, samples = cb\<rparr>]
               \<and> nextPlayTime (playAll [(ta, ca), (tb, cb)] s) = st + chunkDuration cb))
       \<and> ((\<forall>c \<in> set cs. c \<noteq> []) \<and> nextPlayTime s \<le> t + 0.2 \<longrightarrow>
            chunksDropped (playAll (nominalArrivals t cs) s) = chunksDropped s
          \<and> scheduled (playAll (nominalArrivals t cs) s) =
              scheduled s @ backToBack (if nextPlayTime s < t then t + 0.01 else nextPlayTime s) t cs)"
proof (intro conjI impI)
  assume a: "ca \<noteq> [] \<and> length ca \<le> 3200 \<and> cb \<noteq> [] \<and> tb - ta > 0.2"
  then have c: "ca \<noteq> []" "length ca \<le> 3200" "cb \<noteq> []" "tb - ta > 0.2" by simp_all
  show "chunksDropped (playAll [(ta, ca), (tb, cb)] s) = chunksDropped (playAll [(ta, ca)] s)"
    using gap_step(1)[OF assms c] by simp
  show "\<exists>st. tb \<le> st \<and> st \<le> tb + 0.2
          \<and> scheduled (playAll [(ta, ca), (tb, cb)] s) =
              scheduled (playAll [(ta, ca)] s) @ [\<lparr>start_at = st, clock = tb, samples = cb\<rparr>]
          \<and> nextPlayTime (playAll [(ta, ca), (tb, cb)] s) = st + chunkDuration cb"
    using gap_step(2)[OF assms c] by simp
next
  assume b: "(\<forall>c \<in> set cs. c \<noteq> []) \<and> nextPlayTime s \<le> t + 0.2"
  then show "chunksDropped (playAll (nominalArrivals t cs) s) = chunksDropped s"
    using nominal_run[OF assms, of cs t] by simp
  from b show "scheduled (playAll (nominalArrivals t cs) s) =
      scheduled s @ backToBack (if nextPlayTime s < t then t + 0.01 else nextPlayTime s) t cs"
    using nominal_run[OF assms, of cs t] by simp
qed

theorem jitter_gaps_and_nominal_rate_witness:
  "playbackContext (jitter_card 0) \<and> gainNode (jitter_card 0)
   \<and> replicate 320 (0::real) \<noteq> [] \<and> length (replicate 320 (0::real)) \<le> 3200
   \<and> (1.5::real) - 1 > 0.2
   \<and> chunksDropped (playAll [(1, replicate 320 0), (1.5, replicate 320 0)] (jitter_card 0))
       = chunksDropped (playAll [(1, replicate 320 0)] (jitter_card 0))
   \<and> map start_at (scheduled (playAll [(1, replicate 320 0), (1.5, replicate 320 0)] (jitter_card 0)))
       = [1.01, 1.51]
   \<and> nextPlayTime (jitter_card 0) \<le> 1 + 0.2
   \<and> chunksDropped
        (playAll (nominalArrivals 1 [replicate 320 0, replicate 320 0, replicate 320 0])
           (jitter_card 0)) = 0
   \<and> map start_at (scheduled
        (playAll (nominalArrivals 1 [replicate 320 0, replicate 320 0, replicate 320 0])
           (jitter_card 0))) = [1.01, 1.03, 1.05]"
  using jitter_gaps_and_nominal_rate
          [where s = "jitter_card 0" and ca = "replicate 320 0" and cb = "replicate 320 0"
             and ta = 1 and tb = "1.5" and t = 1
             and cs = "[replicate 320 0, replicate 320 0, replicate 320 0]"]
  by (simp add: jitter_card_def constructor_def chunkDuration_def playScheduled_def)

text \<open>
  Claim C2 as the specification states it fails in its first half. Three chunks of 320
  samples (20 ms) reach a fresh card at the clock readings 1, 1.5 and 2, so each gap is
  0.5 seconds, more than the maximum lookahead: all three are scheduled, 10 ms after their
  arrival, and the drop counter is the same after the run as before it.
\<close>

theorem jitter_gaps_no_drop_counterexample:
  "(1.5::real) - 1 > 0.2 \<and> (2::real) - 1.5 > 0.2
   \<and> chunksDropped
        (playAll [(1, replicate 320 0), (1.5, replicate 320 0), (2, replicate 320 0)] (jitter_card 0))
       = chunksDropped (jitter_card 0)
   \<and> map start_at (scheduled
        (playAll [(1, replicate 320 0), (1.5, replicate 320 0), (2, replicate 320 0)] (jitter_card 0)))
       = [1.01, 1.51, 2.01]"
  by (simp add: playScheduled_def jitter_card_def constructor_def)

text \<open>
  Claim C3. Across every run of chunks through \<open>_playScheduled\<close>, from any card
  \<open>s\<close>, every call of \<open>src.start\<close> the run makes is on time: its start time is
  not before the clock reading of that moment, and at most 0.2 seconds after it. And on any
  card \<open>r\<close> a non-empty chunk that would start later than that, the cursor being more
  than 0.2 seconds ahead of the clock, is dropped instead of played: nothing is scheduled for
  it and the drop counter grows by one.
\<close>

theorem jitter_never_early_never_late:
  "(\<exists>new. scheduled (playAll chunks s) = scheduled s @ new \<and> list_all onTime new)
   \<and> (playbackContext r \<and> gainNode r \<and> float32 \<noteq> [] \<and> now + 0.2 < nextPlayTime r \<longrightarrow>
        scheduled (playScheduled now float32 r) = scheduled r
      \<and> chunksDropped (playScheduled now float32 r) = chunksDropped r + 1)"
proof
  show "\<exists>new. scheduled (playAll chunks s) = scheduled s @ new \<and> list_all onTime new"
    by (rule playAll_onTime)
  show "playbackContext r \<and> gainNode r \<and> float32 \<noteq> [] \<and> now + 0.2 < nextPlayTime r \<longrightarrow>
        scheduled (playScheduled now float32 r) = scheduled r
      \<and> chunksDropped (playScheduled now float32 r) = chunksDropped r + 1"
    by (auto simp add: playScheduled_def Let_def)
qed

theorem jitter_never_early_never_late_witness:
  "list_all onTime
     (scheduled (playAll [(1, replicate 320 0), (1.01, replicate 320 0), (3, [])] (jitter_card 0)))
   \<and> playbackContext (jitter_card 1.5) \<and> gainNode (jitter_card 1.5)
   \<and> replicate 320 (0::real) \<noteq> [] \<and> 1 + 0.2 < nextPlayTime (jitter_card 1.5)
   \<and> scheduled (playScheduled 1 (replicate 320 0) (jitter_card 1.5)) = scheduled (jitter_card 1.5)
   \<and> chunksDropped (playScheduled 1 (replicate 320 0) (jitter_card 1.5))
       = chunksDropped (jitter_card 1.5) + 1"
proof -
  have empty: "scheduled (jitter_card 0) = []"
    by (simp add: jitter_card_def constructor_def)
  have drop: "playbackContext (jitter_card 1.5) \<and> gainNode (jitter_card 1.5)
      \<and> replicate 320 (0::real) \<noteq> [] \<and> 1 + 0.2 < nextPlayTime (jitter_card 1.5)"
    by (simp add: jitter_card_def constructor_def)
  show ?thesis
    using jitter_never_early_never_late
            [where chunks = "[(1, replicate 320 0), (1.01, replicate 320 0), (3, [])]"
               and s = "jitter_card 0" and r = "jitter_card 1.5"
               and ?float32.0 = "replicate 320 0" and now = 1]
      empty drop
    by auto
qed

section \<open>The audio payload: proofs\<close>

subsection \<open>Base64\<close>

lemma index_of_nth:
  "distinct xs \<Longrightarrow> n < length xs \<Longrightarrow> index_of (xs ! n) xs = Some n"
proof (induction xs arbitrary: n)
  case Nil
  then show ?case by simp
next
  case (Cons x xs)
  show ?case
  proof (cases n)
    case 0
    then show ?thesis by simp
  next
    case (Suc m)
    with Cons.prems have "xs ! m \<in> set xs" "x \<notin> set xs" by auto
    then have "xs ! m \<noteq> x" by auto
    with Suc Cons show ?thesis by auto
  qed
qed

lemma length_b64alphabet: "length b64alphabet = 64"
  by (simp add: b64alphabet_def)

lemma distinct_b64alphabet: "distinct b64alphabet"
  by (simp add: b64alphabet_def)

lemma b64val_b64char: "n < 64 \<Longrightarrow> b64val (b64char n) = Some n"
  by (simp add: b64val_def b64char_def index_of_nth distinct_b64alphabet length_b64alphabet)

lemma b64char_in: "n < 64 \<Longrightarrow> b64char n \<in> set b64alphabet"
  by (simp add: b64char_def length_b64alphabet)

lemma b64alphabet_plain: "c \<in> set b64alphabet \<Longrightarrow> \<not> ascii_whitespace c \<and> c \<noteq> CHR ''=''"
  by (auto simp add: b64alphabet_def ascii_whitespace_def)

lemma unat_byte: "unat (b :: byte) < 256"
  using unsigned_less[of b, where 'a=nat] by simp

lemma dm16: "r < 16 \<Longrightarrow> (q * 16 + r) div 16 = (q::nat) \<and> (q * 16 + r) mod 16 = r"
  by simp

lemma dm4: "r < 4 \<Longrightarrow> (q * 4 + r) div 4 = (q::nat) \<and> (q * 4 + r) mod 4 = r"
  by simp

lemma byte_parts:
  "unat (b::byte) div 4 < 64" "unat b div 16 < 16" "unat b div 64 < 4"
  using unat_byte[of b] by simp_all

lemma sextet_bounds:
  "unat (a::byte) mod 4 * 16 + unat (b::byte) div 16 < 64"
  "unat (b::byte) mod 16 * 4 + unat (c::byte) div 64 < 64"
  "unat a mod 4 * 16 < 64" "unat b mod 16 * 4 < 64"
proof -
  have "unat a mod 4 < 4" "unat b mod 16 < 16" by simp_all
  with byte_parts(2)[of b] byte_parts(3)[of c]
  show "unat a mod 4 * 16 + unat b div 16 < 64" "unat b mod 16 * 4 + unat c div 64 < 64"
    "unat a mod 4 * 16 < 64" "unat b mod 16 * 4 < 64"
    by linarith+
qed

lemma sextets_bound: "v \<in> set (sextets binary) \<Longrightarrow> v < 64"
proof (induction binary arbitrary: v rule: sextets.induct)
  case (1 a b c rest)
  then show ?case
    using byte_parts(1)[of a] sextet_bounds(1)[of a b] sextet_bounds(2)[of b c] by auto
next
  case (2 a b)
  then show ?case
    using byte_parts(1)[of a] sextet_bounds(1)[of a b] sextet_bounds(4)[of b] by auto
next
  case (3 a)
  then show ?case
    using byte_parts(1)[of a] sextet_bounds(3)[of a] by auto
next
  case 4
  then show ?case by simp
qed

lemma those_b64val: "\<forall>v \<in> set vs. v < 64 \<Longrightarrow> those (map b64val (map b64char vs)) = Some vs"
  by (induction vs) (simp_all add: b64val_b64char)

lemma length_sextets:
  "length (sextets binary) =
     4 * (length binary div 3) + (if length binary mod 3 = 0 then 0 else length binary mod 3 + 1)"
proof (induction binary rule: sextets.induct)
  case (1 a b c rest)
  have "length (a # b # c # rest) = length rest + 3" by simp
  then have "length (a # b # c # rest) div 3 = length rest div 3 + 1"
    "length (a # b # c # rest) mod 3 = length rest mod 3" by simp_all
  with 1 show ?case by simp
qed simp_all

lemma octet1:
  "unat (a::byte) div 4 * 4 + (unat a mod 4 * 16 + unat (b::byte) div 16) div 16 = unat a"
  using dm16[OF byte_parts(2)[of b], of "unat a mod 4"] by simp

lemma octet2:
  "(unat (a::byte) mod 4 * 16 + unat (b::byte) div 16) mod 16 * 16
     + (unat b mod 16 * 4 + unat (c::byte) div 64) div 4 = unat b"
  using dm16[OF byte_parts(2)[of b], of "unat a mod 4"]
    dm4[OF byte_parts(3)[of c], of "unat b mod 16"]
  by simp

lemma octet3:
  "(unat (b::byte) mod 16 * 4 + unat (c::byte) div 64) mod 4 * 64 + unat c mod 64 = unat c"
  using dm4[OF byte_parts(3)[of c], of "unat b mod 16"] by simp

lemma octet2_last:
  "(unat (a::byte) mod 4 * 16 + unat (b::byte) div 16) mod 16 * 16 + unat b mod 16 * 4 div 4
     = unat b"
  using dm16[OF byte_parts(2)[of b], of "unat a mod 4"] by simp

lemma octet1_last: "unat (a::byte) div 4 * 4 + unat a mod 4 * 16 div 16 = unat a"
  by simp

lemma octets_sextets: "octets (sextets binary) = binary"
proof (induction binary rule: sextets.induct)
  case (1 a b c rest)
  have "octets (sextets (a # b # c # rest)) =
          [of_nat (unat a), of_nat (unat b), of_nat (unat c)] @ octets (sextets rest)"
    by (simp only: sextets.simps octets.simps append_Cons append_Nil octet1 octet2 octet3)
  with 1 show ?case by simp
next
  case (2 a b)
  have "octets (sextets [a, b]) = [of_nat (unat a), of_nat (unat b)]"
    by (simp only: sextets.simps octets.simps octet1 octet2_last)
  then show ?case by simp
next
  case (3 a)
  have "octets (sextets [a]) = [of_nat (unat a)]"
    by (simp only: sextets.simps octets.simps octet1_last)
  then show ?case by simp
next
  case 4
  then show ?case by simp
qed

lemma strip_padding_append:
  assumes "k \<le> 2" and "xs = [] \<longrightarrow> k = 0" and "\<forall>c \<in> set xs. c \<noteq> CHR ''=''"
  shows "strip_padding (xs @ replicate k (CHR ''='')) = xs"
proof -
  have last: "xs \<noteq> [] \<Longrightarrow> last xs \<noteq> CHR ''=''" using assms(3) last_in_set by blast
  consider "k = 0" | "k = 1" | "k = 2" using assms(1) by linarith
  then show ?thesis
  proof cases
    case 1
    then show ?thesis using last by (auto simp add: strip_padding_def)
  next
    case 2
    then have ne: "xs \<noteq> []" using assms(2) by auto
    have "xs @ replicate k (CHR ''='') = xs @ [CHR ''='']" using 2 by simp
    then show ?thesis using ne last by (simp add: strip_padding_def butlast_append)
  next
    case 3
    have "xs @ replicate k (CHR ''='') = (xs @ [CHR ''='']) @ [CHR ''='']"
      using 3 by (simp add: numeral_2_eq_2)
    then show ?thesis by (simp add: strip_padding_def butlast_append)
  qed
qed

lemma btoa_chars:
  "c \<in> set (map b64char (sextets binary)) \<Longrightarrow> \<not> ascii_whitespace c \<and> c \<noteq> CHR ''=''"
  using sextets_bound b64char_in b64alphabet_plain by auto

lemma btoa_no_whitespace: "filter (\<lambda>c. \<not> ascii_whitespace c) (btoa binary) = btoa binary"
proof -
  have "\<forall>c \<in> set (btoa binary). \<not> ascii_whitespace c"
    using btoa_chars[of _ binary] by (auto simp add: btoa_def ascii_whitespace_def)
  then show ?thesis by simp
qed

lemma length_btoa: "length (btoa binary) mod 4 = 0"
proof -
  consider "length binary mod 3 = 0" | "length binary mod 3 = 1" | "length binary mod 3 = 2"
    by linarith
  then show ?thesis
    by cases (simp_all add: btoa_def length_sextets)
qed

lemma mod4_rest: "r < 4 \<Longrightarrow> (4 * q + r) mod 4 = (r::nat)"
  by simp

lemma length_sextets_mod: "length (sextets binary) mod 4 \<noteq> 1"
proof -
  let ?q = "length binary div 3"
  consider "length binary mod 3 = 0" | "length binary mod 3 = 1" | "length binary mod 3 = 2"
    by linarith
  then show ?thesis
  proof cases
    case 1
    then show ?thesis by (simp add: length_sextets)
  next
    case 2
    then have "length (sextets binary) = 4 * ?q + 2" by (simp add: length_sextets)
    then have "length (sextets binary) mod 4 = (4 * ?q + 2) mod 4" by (simp only:)
    also have "\<dots> = 2" by (rule mod4_rest) simp
    finally show ?thesis by simp
  next
    case 3
    then have "length (sextets binary) = 4 * ?q + 3" by (simp add: length_sextets)
    then have "length (sextets binary) mod 4 = (4 * ?q + 3) mod 4" by (simp only:)
    also have "\<dots> = 3" by (rule mod4_rest) simp
    finally show ?thesis by simp
  qed
qed

lemma sextets_Nil: "sextets binary = [] \<Longrightarrow> binary = []"
  by (cases binary rule: sextets.cases) simp_all

lemma atob_btoa: "atob (btoa binary) = Some binary"
proof -
  let ?body = "map b64char (sextets binary)"
  let ?k = "(3 - length binary mod 3) mod 3"
  have k: "?k \<le> 2" by simp
  have empty: "?body = [] \<longrightarrow> ?k = 0" using sextets_Nil[of binary] by auto
  have plain: "\<forall>c \<in> set ?body. c \<noteq> CHR ''=''" using btoa_chars[of _ binary] by blast
  have strip: "strip_padding (btoa binary) = ?body"
    unfolding btoa_def by (rule strip_padding_append[OF k empty plain])
  have len: "length ?body mod 4 \<noteq> 1" using length_sextets_mod[of binary] by simp
  have vals: "those (map b64val ?body) = Some (sextets binary)"
    using those_b64val[of "sextets binary"] sextets_bound[of _ binary] by blast
  show ?thesis
    using len vals
    by (simp add: atob_def btoa_no_whitespace length_btoa strip octets_sextets del: length_map)
qed

subsection \<open>Typed arrays and the binary string\<close>

lemma int16_join:
  "ucast (ucast w :: byte) OR push_bit 8 (ucast (ucast (drop_bit 8 w) :: byte)) = (w :: int16)"
  by (rule bit_word_eqI) (auto simp add: bit_simps)

lemma toInt16Array_toUint8Array: "toInt16Array (toUint8Array int16Array) = Some int16Array"
  by (induction int16Array) (simp_all add: toUint8Array_def int16_join)

lemma fromCharCodeLoop_eq:
  "i \<le> length bytes \<Longrightarrow> fromCharCodeLoop i bytes binary = binary @ drop i bytes"
proof (induction i bytes binary rule: fromCharCodeLoop.induct)
  case (1 i bytes binary)
  show ?case
  proof (cases "i < length bytes")
    case True
    let ?j = "min (i + 0x8000) (length bytes)"
    show ?thesis
    proof (cases "i + 0x8000 \<le> length bytes")
      case le: True
      then have j: "?j = i + 0x8000" by simp
      have "fromCharCodeLoop i bytes binary =
            fromCharCodeLoop (i + 0x8000) bytes (binary @ take 0x8000 (drop i bytes))"
        using True j by (subst fromCharCodeLoop.simps) (simp add: subarray_def)
      also have "\<dots> = (binary @ take 0x8000 (drop i bytes)) @ drop (i + 0x8000) bytes"
        using 1 True le by (simp add: subarray_def)
      also have "\<dots> = binary @ drop i bytes"
        by (simp add: add.commute[of i] flip: drop_drop)
      finally show ?thesis .
    next
      case gt: False
      then have j: "?j = length bytes" by simp
      have "fromCharCodeLoop i bytes binary =
            fromCharCodeLoop (i + 0x8000) bytes (binary @ drop i bytes)"
        using True j by (subst fromCharCodeLoop.simps) (simp add: subarray_def)
      also have "\<dots> = binary @ drop i bytes"
        using gt by (subst fromCharCodeLoop.simps) simp
      finally show ?thesis .
    qed
  next
    case False
    with 1(2) show ?thesis by (subst fromCharCodeLoop.simps) simp
  qed
qed

text \<open>
  Claim C7. The payload is lossless: for every array of 16-bit samples, what
  \<open>_sendAudio\<close> puts on the wire (the bytes of the samples, low byte first, as a binary
  string, in base64) is decoded by \<open>_handleAudioEvent\<close> (base64 to bytes to
  \<open>Int16Array\<close>) to exactly the samples that were sent.
\<close>

theorem audio_payload_lossless: "decodeAudio (encodeAudio int16Array) = Some int16Array"
proof -
  have "fromCharCodeLoop 0 (toUint8Array int16Array) [] = toUint8Array int16Array"
    using fromCharCodeLoop_eq[of 0 "toUint8Array int16Array" "[]"] by simp
  then show ?thesis
    by (simp add: decodeAudio_def encodeAudio_def atob_btoa toInt16Array_toUint8Array)
qed

section \<open>Events, the button and the bridge: proofs\<close>

lemma render_frame:
  "active (render s) = active s" "ringing (render s) = ringing s"
  "stopping (render s) = stopping s" "starting (render s) = starting s"
  "activeDeviceInfo (render s) = activeDeviceInfo s" "outbox (render s) = outbox s"
  "playbackContext (render s) = playbackContext s" "gainNode (render s) = gainNode s"
  "nextPlayTime (render s) = nextPlayTime s" "scheduled (render s) = scheduled s"
  "hass (render s) = hass s" "selectedDestination (render s) = selectedDestination s"
  "availableDevices (render s) = availableDevices s" "config (render s) = config s"
  by (simp_all add: render_def)

lemma showError_frame:
  "active (showError m s) = active s" "ringing (showError m s) = ringing s"
  "stopping (showError m s) = stopping s" "starting (showError m s) = starting s"
  "activeDeviceInfo (showError m s) = activeDeviceInfo s" "outbox (showError m s) = outbox s"
  "unsubscribeState (showError m s) = unsubscribeState s"
  "unsubscribeAudio (showError m s) = unsubscribeAudio s"
  by (simp_all add: showError_def split: option.splits)

lemma showError_shown: "err_el s \<noteq> None \<Longrightarrow> err_el (showError m s) = Some m"
  by (auto simp add: showError_def)

lemma hangup_end_released: "released (hangup_end s) \<and> idle (hangup_end s)"
  by (simp add: hangup_end_def cleanup_def render_def released_def idle_def)

lemma hangup_begin_outbox:
  "activeDeviceInfo s = Some info \<Longrightarrow> hass s \<Longrightarrow>
     outbox (hangup_begin s) = outbox s @ [Stop (device_id info)]"
  by (simp add: hangup_begin_def render_def Let_def)

lemma hangup_end_outbox: "outbox (hangup_end s) = outbox s"
  by (simp add: hangup_end_def cleanup_def render_def)

lemma hangup_tears_down:
  assumes "activeDeviceInfo s = Some info" and "hass s"
  shows "outbox (hangup s) = outbox s @ [Stop (device_id info)]
       \<and> released (hangup s) \<and> idle (hangup s)"
  using assms hangup_end_released[of "hangup_begin s"]
  by (simp add: hangup_def hangup_end_outbox hangup_begin_outbox)

lemma decode_example: "decodeAudio ''AQD+/w=='' = Some [1, -2]"
  by code_simp

text \<open>
  Claim C4. While the card is ringing (\<open>_ringing\<close> set, \<open>_active\<close> not set: the
  endpoint has acknowledged the start and waits for the local answer), every audio event
  leaves the card exactly as it was: the event is not counted, nothing is kept of it and
  nothing is scheduled. A \<open>streaming\<close> state event for the active device makes the
  card active and no longer ringing, and leaves the playback path as it was. On an active
  card with a playback context, an audio event for the active device whose payload decodes
  is counted and its samples, scaled by 1/32768, are handed to \<open>_playScheduled\<close>.
\<close>

theorem ringing_discards_audio_streaming_plays:
  "(ringing s \<and> \<not> active s \<longrightarrow> handleAudioEvent now event_data s = s)
   \<and> (activeDeviceInfo s = Some info \<and> sd_device_id st = device_id info
        \<and> sd_state st = Str ''streaming'' \<longrightarrow>
        active (handleStateEvent (Some st) s) \<and> \<not> ringing (handleStateEvent (Some st) s)
      \<and> activeDeviceInfo (handleStateEvent (Some st) s) = Some info
      \<and> playbackContext (handleStateEvent (Some st) s) = playbackContext s
      \<and> gainNode (handleStateEvent (Some st) s) = gainNode s
      \<and> nextPlayTime (handleStateEvent (Some st) s) = nextPlayTime s
      \<and> scheduled (handleStateEvent (Some st) s) = scheduled s)
   \<and> (active u \<and> playbackContext u \<and> activeDeviceInfo u = Some info
        \<and> ad_device_id a = device_id info
        \<and> decodeAudio (toString (ad_audio a)) = Some int16 \<longrightarrow>
        handleAudioEvent now (Some a) u =
          playScheduled now (map (\<lambda>w. real_of_int (sint w) / 32768) int16)
            (u\<lparr>chunksReceived := chunksReceived u + 1\<rparr>))"
  by (auto simp add: handleAudioEvent_def handleStateEvent_def render_def Let_def
           split: option.splits)

theorem ringing_discards_audio_streaming_plays_witness:
  "ringing (call (ok_env (Str ''ringing'')) p2p_card)
   \<and> \<not> active (call (ok_env (Str ''ringing'')) p2p_card)
   \<and> handleAudioEvent 1 (Some pcm_event) (call (ok_env (Str ''ringing'')) p2p_card)
       = call (ok_env (Str ''ringing'')) p2p_card
   \<and> activeDeviceInfo (call (ok_env (Str ''ringing'')) p2p_card) = Some kitchen
   \<and> sd_device_id (state_event ''streaming'') = device_id kitchen
   \<and> sd_state (state_event ''streaming'') = Str ''streaming''
   \<and> active (handleStateEvent (Some (state_event ''streaming''))
               (call (ok_env (Str ''ringing'')) p2p_card))
   \<and> playbackContext (handleStateEvent (Some (state_event ''streaming''))
               (call (ok_env (Str ''ringing'')) p2p_card))
   \<and> activeDeviceInfo (handleStateEvent (Some (state_event ''streaming''))
               (call (ok_env (Str ''ringing'')) p2p_card)) = Some kitchen
   \<and> ad_device_id pcm_event = device_id kitchen
   \<and> decodeAudio (toString (ad_audio pcm_event)) = Some [1, -2]
   \<and> scheduled (handleAudioEvent 1 (Some pcm_event)
        (handleStateEvent (Some (state_event ''streaming''))
           (call (ok_env (Str ''ringing'')) p2p_card)))
       = [\<lparr>start_at = 1.01, clock = 1, samples = [1 / 32768, - 2 / 32768]\<rparr>]"
proof -
  let ?r = "call (ok_env (Str ''ringing'')) p2p_card"
  let ?s = "handleStateEvent (Some (state_event ''streaming'')) ?r"
  have r: "ringing ?r" "\<not> active ?r" "activeDeviceInfo ?r = Some kitchen"
    "playbackContext ?r" "gainNode ?r" "nextPlayTime ?r = 0" "scheduled ?r = []"
    by (simp_all add: card_defs example_defs Let_def)
  have ev: "sd_device_id (state_event ''streaming'') = device_id kitchen"
    "sd_state (state_event ''streaming'') = Str ''streaming''"
    "ad_device_id pcm_event = device_id kitchen"
    "decodeAudio (toString (ad_audio pcm_event)) = Some [1, -2]"
    by (simp_all add: state_event_def pcm_event_def kitchen_def decode_example)
  note t = ringing_discards_audio_streaming_plays
      [where s = ?r and info = kitchen and st = "state_event ''streaming''"
         and u = ?s and a = pcm_event and ?int16.0 = "[1, -2]" and now = 1
         and event_data = "Some pcm_event"]
  from t r ev have s: "active ?s" "playbackContext ?s" "gainNode ?s" "nextPlayTime ?s = 0"
    "scheduled ?s = []" "activeDeviceInfo ?s = Some kitchen"
    by simp_all
  from t r ev s have "handleAudioEvent 1 (Some pcm_event) ?s =
      playScheduled 1 (map (\<lambda>w. real_of_int (sint w) / 32768) [1, -2 :: int16])
        (?s\<lparr>chunksReceived := chunksReceived ?s + 1\<rparr>)"
    by simp
  then have "scheduled (handleAudioEvent 1 (Some pcm_event) ?s)
      = [\<lparr>start_at = 1.01, clock = 1, samples = [1 / 32768, - 2 / 32768]\<rparr>]"
    using s by (simp add: playScheduled_def)
  with t r ev s show ?thesis by simp
qed

text \<open>
  Claim C5. A \<open>disconnected\<close> state event for the active device, and a
  \<open>disconnected\<close> bridge state event for the active pair (the active device as source,
  the selected destination as destination), end the call: the stop request for the active
  device is sent, and after the hang-up the card holds no subscription and no audio resource
  and is idle.
\<close>

theorem disconnected_tears_down:
  "(activeDeviceInfo s = Some info \<and> hass s \<and> sd_device_id st = device_id info
      \<and> sd_state st = Str ''disconnected'' \<longrightarrow>
        outbox (handleStateEvent (Some st) s) = outbox s @ [Stop (device_id info)]
      \<and> released (handleStateEvent (Some st) s) \<and> idle (handleStateEvent (Some st) s))
   \<and> (activeDeviceInfo s = Some info \<and> hass s \<and> bd_source_device_id b = device_id info
      \<and> bd_dest_device_id b = selectedDestination s \<and> bd_state b = Str ''disconnected'' \<longrightarrow>
        outbox (handleBridgeStateEvent (Some b) s) = outbox s @ [Stop (device_id info)]
      \<and> released (handleBridgeStateEvent (Some b) s) \<and> idle (handleBridgeStateEvent (Some b) s))"
  using hangup_tears_down[of s info]
  by (simp add: handleStateEvent_def handleBridgeStateEvent_def)

theorem disconnected_tears_down_witness:
  "activeDeviceInfo (call (ok_env (Str ''streaming'')) p2p_card) = Some kitchen
   \<and> hass (call (ok_env (Str ''streaming'')) p2p_card)
   \<and> active (call (ok_env (Str ''streaming'')) p2p_card)
   \<and> mediaStream (call (ok_env (Str ''streaming'')) p2p_card)
   \<and> unsubscribeAudio (call (ok_env (Str ''streaming'')) p2p_card)
   \<and> sd_device_id (state_event ''disconnected'') = device_id kitchen
   \<and> sd_state (state_event ''disconnected'') = Str ''disconnected''
   \<and> outbox (handleStateEvent (Some (state_event ''disconnected''))
               (call (ok_env (Str ''streaming'')) p2p_card))
       = [ListDevices, Start (Str ''abc123'') (Str ''10.0.0.5''), Stop (Str ''abc123'')]
   \<and> released (handleStateEvent (Some (state_event ''disconnected''))
               (call (ok_env (Str ''streaming'')) p2p_card))
   \<and> idle (handleStateEvent (Some (state_event ''disconnected''))
               (call (ok_env (Str ''streaming'')) p2p_card))
   \<and> activeDeviceInfo (bridge (ok_env Undefined) ptmp_card) = Some kitchen
   \<and> hass (bridge (ok_env Undefined) ptmp_card)
   \<and> active (bridge (ok_env Undefined) ptmp_card)
   \<and> bd_source_device_id (bridge_event ''disconnected'') = device_id kitchen
   \<and> bd_dest_device_id (bridge_event ''disconnected'')
       = selectedDestination (bridge (ok_env Undefined) ptmp_card)
   \<and> bd_state (bridge_event ''disconnected'') = Str ''disconnected''
   \<and> outbox (handleBridgeStateEvent (Some (bridge_event ''disconnected''))
               (bridge (ok_env Undefined) ptmp_card))
       = outbox (bridge (ok_env Undefined) ptmp_card) @ [Stop (Str ''abc123'')]
   \<and> released (handleBridgeStateEvent (Some (bridge_event ''disconnected''))
               (bridge (ok_env Undefined) ptmp_card))
   \<and> idle (handleBridgeStateEvent (Some (bridge_event ''disconnected''))
               (bridge (ok_env Undefined) ptmp_card))"
proof -
  let ?c = "call (ok_env (Str ''streaming'')) p2p_card"
  let ?b = "bridge (ok_env Undefined) ptmp_card"
  have c: "activeDeviceInfo ?c = Some kitchen" "hass ?c" "active ?c" "mediaStream ?c"
    "unsubscribeAudio ?c"
    "outbox ?c = [ListDevices, Start (Str ''abc123'') (Str ''10.0.0.5'')]"
    by (simp_all add: card_defs example_defs Let_def)
  have b: "activeDeviceInfo ?b = Some kitchen" "hass ?b" "active ?b"
    "selectedDestination ?b = Str ''def456''"
    by (simp_all add: card_defs example_defs Let_def)
  have ev: "sd_device_id (state_event ''disconnected'') = device_id kitchen"
    "sd_state (state_event ''disconnected'') = Str ''disconnected''"
    "bd_source_device_id (bridge_event ''disconnected'') = device_id kitchen"
    "bd_dest_device_id (bridge_event ''disconnected'') = Str ''def456''"
    "bd_state (bridge_event ''disconnected'') = Str ''disconnected''"
    "device_id kitchen = Str ''abc123''"
    by (simp_all add: state_event_def bridge_event_def kitchen_def)
  show ?thesis
    using disconnected_tears_down
            [where s = ?c and info = kitchen and st = "state_event ''disconnected''"]
      disconnected_tears_down
            [where s = ?b and info = kitchen and b = "bridge_event ''disconnected''"]
      c b ev
    by simp
qed

lemma getDeviceInfo_frame:
  "getDeviceInfo r s = (d, s1) \<Longrightarrow>
     (outbox s1 = outbox s \<or> outbox s1 = outbox s @ [ListDevices])
     \<and> s1 = s\<lparr>outbox := outbox s1\<rparr>"
  by (auto simp add: getDeviceInfo_def Let_def split: if_splits reply.splits option.splits)

text \<open>
  Claim C6. When the source device has no known host (it is not in the device list, or its
  entry has no host) or the selected destination has none (nothing selected, the selection is
  not among the available devices, or its entry has no host), \<open>_bridge\<close> sends no
  bridge request: its only message is the device lookup. The card does not start: the
  flags, the active device and the subscription are as before, and the error line, when the
  card has one, shows one of the two messages.
\<close>

theorem bridge_needs_both_hosts:
  assumes "noHost (fst (getDeviceInfo (list_devices_reply e) s))
         \<or> noHost (find (\<lambda>d. device_id d = selectedDestination s) (availableDevices s))"
  shows "(outbox (bridge e s) = outbox s \<or> outbox (bridge e s) = outbox s @ [ListDevices])
       \<and> starting (bridge e s) = starting s \<and> active (bridge e s) = active s
       \<and> activeDeviceInfo (bridge e s) = activeDeviceInfo s
       \<and> unsubscribeState (bridge e s) = unsubscribeState s
       \<and> (err_el s \<noteq> None \<longrightarrow>
            err_el (bridge e s) = Some ''Source device IP not available''
          \<or> err_el (bridge e s) = Some ''Destination device not selected or IP not available'')"
proof -
  obtain d s1 where g: "getDeviceInfo (list_devices_reply e) s = (d, s1)"
    by (cases "getDeviceInfo (list_devices_reply e) s")
  from getDeviceInfo_frame[OF g]
  have ob: "outbox s1 = outbox s \<or> outbox s1 = outbox s @ [ListDevices]"
    and s1: "s1 = s\<lparr>outbox := outbox s1\<rparr>" by simp_all
  have fr: "starting s1 = starting s" "active s1 = active s"
    "activeDeviceInfo s1 = activeDeviceInfo s" "unsubscribeState s1 = unsubscribeState s"
    "err_el s1 = err_el s" "selectedDestination s1 = selectedDestination s"
    "availableDevices s1 = availableDevices s"
    by (subst s1, simp)+
  have "\<exists>m. bridge e s = showError m s1
          \<and> (m = ''Source device IP not available''
             \<or> m = ''Destination device not selected or IP not available'')"
    using assms g fr(6,7)
    by (auto simp add: bridge_def noHost_def split: option.splits)
  then obtain m where m: "bridge e s = showError m s1"
    "m = ''Source device IP not available''
       \<or> m = ''Destination device not selected or IP not available''" by blast
  show ?thesis
    using m ob fr showError_shown[of s1 m] by (auto simp add: showError_frame)
qed

theorem bridge_needs_both_hosts_witness:
  "noHost (fst (getDeviceInfo (list_devices_reply no_host_env) ptmp_card))
   \<and> err_el ptmp_card = Some [] \<and> err_el unselected_card = Some []
   \<and> outbox (bridge no_host_env ptmp_card) = outbox ptmp_card @ [ListDevices]
   \<and> err_el (bridge no_host_env ptmp_card) = Some ''Source device IP not available''
   \<and> \<not> starting (bridge no_host_env ptmp_card) \<and> \<not> active (bridge no_host_env ptmp_card)
   \<and> noHost (find (\<lambda>d. device_id d = selectedDestination unselected_card)
                (availableDevices unselected_card))
   \<and> outbox (bridge (ok_env Undefined) unselected_card) = outbox unselected_card @ [ListDevices]
   \<and> err_el (bridge (ok_env Undefined) unselected_card)
       = Some ''Destination device not selected or IP not available''
   \<and> \<not> starting (bridge (ok_env Undefined) unselected_card)
   \<and> \<not> active (bridge (ok_env Undefined) unselected_card)"
  using bridge_needs_both_hosts[of no_host_env ptmp_card]
    bridge_needs_both_hosts[of "ok_env Undefined" unselected_card]
  by (simp add: card_defs example_defs noHost_def Let_def)

text \<open>
  The guard of \<open>_toggle\<close>: while the starting or the stopping flag is set,
  \<open>_toggle\<close> leaves the card as it is: no call, no bridge, no hang-up. The flags are
  set in the states in which \<open>_hangup\<close>, \<open>_call\<close> and \<open>_bridge\<close> wait
  for the requests that follow the device lookup.
\<close>

theorem toggle_noop_in_transition:
  "(starting s \<or> stopping s \<longrightarrow> toggle e s = s)
   \<and> toggle e (hangup_begin s) = hangup_begin s
   \<and> toggle e (call_begin d s) = call_begin d s
   \<and> toggle e (bridge_begin d s) = bridge_begin d s"
proof -
  have "stopping (hangup_begin s)"
    by (simp add: hangup_begin_def render_def Let_def split: option.splits)
  moreover have "starting (call_begin d s)"
    by (simp add: call_begin_def render_def showError_def split: option.splits)
  moreover have "starting (bridge_begin d s)"
    by (simp add: bridge_begin_def render_def showError_def split: option.splits)
  ultimately show ?thesis by (simp add: toggle_def)
qed

theorem toggle_noop_in_transition_witness:
  "stopping (hangup_begin (call (ok_env (Str ''streaming'')) p2p_card))
   \<and> toggle (ok_env Undefined) (hangup_begin (call (ok_env (Str ''streaming'')) p2p_card))
       = hangup_begin (call (ok_env (Str ''streaming'')) p2p_card)
   \<and> starting (call_begin kitchen p2p_card)
   \<and> toggle (ok_env Undefined) (call_begin kitchen p2p_card) = call_begin kitchen p2p_card
   \<and> toggle (ok_env Undefined) (call (ok_env (Str ''streaming'')) p2p_card)
       = hangup (call (ok_env (Str ''streaming'')) p2p_card)"
proof -
  let ?c = "call (ok_env (Str ''streaming'')) p2p_card"
  have f: "stopping (hangup_begin ?c)" "starting (call_begin kitchen p2p_card)"
    "\<not> starting ?c" "\<not> stopping ?c" "active ?c"
    by (simp_all add: card_defs example_defs Let_def)
  show ?thesis
    using toggle_noop_in_transition[of "hangup_begin ?c" "ok_env Undefined"]
      toggle_noop_in_transition[of "call_begin kitchen p2p_card" "ok_env Undefined"] f
    by (simp add: toggle_def)
qed

text \<open>
  \<open>_call\<close> is the lookup followed by \<open>call_resume\<close>, and the card during the
  lookup is \<open>lookup_pending\<close>.
\<close>

lemma getDeviceInfo_pending: "snd (getDeviceInfo r s) = lookup_pending s"
  by (simp add: getDeviceInfo_def lookup_pending_def Let_def split: reply.splits option.splits)

lemma call_resumes:
  "call e s = call_resume e (fst (getDeviceInfo (list_devices_reply e) s)) (lookup_pending s)"
proof -
  obtain d s1 where g: "getDeviceInfo (list_devices_reply e) s = (d, s1)"
    by (cases "getDeviceInfo (list_devices_reply e) s")
  then have "s1 = lookup_pending s" using getDeviceInfo_pending[of "list_devices_reply e" s] by simp
  with g show ?thesis by (simp add: call_def call_resume_def split: option.splits)
qed

text \<open>
  Claim C8 fails in its conclusion. \<open>_starting\<close> is set only after the awaited device
  lookup, so while the first press waits for the device list no flag is set and the guard
  lets a second press through: on that card \<open>_toggle\<close> starts a second call, with its
  own lookup and its own start request, and when the first press resumes with its device it
  sends its start request as well. The same two start requests leave the card when each
  press only reaches its lookup before the two answers arrive.
\<close>

theorem second_press_during_lookup_starts_again:
  "\<not> starting (lookup_pending p2p_card) \<and> \<not> stopping (lookup_pending p2p_card)
   \<and> \<not> active (lookup_pending p2p_card) \<and> \<not> ringing (lookup_pending p2p_card)
   \<and> outbox (lookup_pending p2p_card) = [ListDevices]
   \<and> outbox (toggle (ok_env (Str ''streaming'')) (lookup_pending p2p_card))
       = [ListDevices, ListDevices, Start (Str ''abc123'') (Str ''10.0.0.5'')]
   \<and> outbox (call_resume (ok_env (Str ''streaming'')) (Some kitchen)
               (toggle (ok_env (Str ''streaming'')) (lookup_pending p2p_card)))
       = [ListDevices, ListDevices, Start (Str ''abc123'') (Str ''10.0.0.5''),
          Start (Str ''abc123'') (Str ''10.0.0.5'')]
   \<and> outbox (call_resume (ok_env (Str ''streaming'')) (Some kitchen)
               (call_resume (ok_env (Str ''streaming'')) (Some kitchen)
                  (lookup_pending (lookup_pending p2p_card))))
       = [ListDevices, ListDevices, Start (Str ''abc123'') (Str ''10.0.0.5''),
          Start (Str ''abc123'') (Str ''10.0.0.5'')]"
  by (simp add: card_defs example_defs lookup_pending_def call_resume_def Let_def)

text \<open>
  Claim C9 fails on a card that is configured by the name of its device, which
  \<open>_getDeviceInfo\<close> accepts: the filter of \<open>_loadAvailableDevices\<close> compares the
  \<open>device_id\<close> only, so the card's own device stays among the destinations, and
  selecting it bridges the device to itself.
\<close>

theorem own_device_offered_as_destination:
  "getConfigDeviceId named_card = Str ''Kitchen''
   \<and> fst (getDeviceInfo (Resolved (Some [kitchen, hall])) named_card) = Some kitchen
   \<and> availableDevices named_card = [kitchen, hall]
   \<and> outbox (bridge (ok_env Undefined) (selectDestination ''abc123'' named_card)) =
       [ListDevices, ListDevices,
        Bridge (Str ''abc123'') (Str ''10.0.0.5'') (Str ''abc123'') (Str ''10.0.0.5'')]"
  by (simp add: card_defs example_defs Let_def)

text \<open>What the filter does: it removes the entries whose \<open>device_id\<close> is the configured id.\<close>

lemma loadAvailableDevices_filters:
  "hass s \<Longrightarrow> d \<in> set (availableDevices (loadAvailableDevices (Resolved (Some devices)) s))
     \<Longrightarrow> d \<in> set devices \<and> device_id d \<noteq> getConfigDeviceId s"
  by (auto simp add: loadAvailableDevices_def render_def Let_def getConfigDeviceId_def)

text \<open>
  Claim C10 fails for bridge state events: \<open>_handleBridgeStateEvent\<close> returns early
  only when the source and the destination both differ. An event of a bridge from a third
  device to the selected destination ends this card's call.
\<close>

theorem foreign_bridge_event_hangs_up:
  "activeDeviceInfo (bridge (ok_env Undefined) ptmp_card) = Some kitchen
   \<and> active (bridge (ok_env Undefined) ptmp_card)
   \<and> bd_source_device_id foreign_bridge_event \<noteq> device_id kitchen
   \<and> \<not> active (handleBridgeStateEvent (Some foreign_bridge_event)
                 (bridge (ok_env Undefined) ptmp_card))
   \<and> outbox (handleBridgeStateEvent (Some foreign_bridge_event)
               (bridge (ok_env Undefined) ptmp_card))
       = outbox (bridge (ok_env Undefined) ptmp_card) @ [Stop (Str ''abc123'')]"
  by (simp add: card_defs example_defs Let_def)

text \<open>
  The events that the handlers do ignore: any event while no device is active, an audio or
  state event with another \<open>device_id\<close>, a bridge state event whose source and
  destination both differ.
\<close>

lemma other_device_audio_ignored:
  "activeDeviceInfo s = None
    \<or> (\<exists>info. activeDeviceInfo s = Some info \<and> ad_device_id a \<noteq> device_id info)
     \<Longrightarrow> handleAudioEvent now (Some a) s = s"
  by (auto simp add: handleAudioEvent_def)

lemma other_device_state_ignored:
  "activeDeviceInfo s = None
    \<or> (\<exists>info. activeDeviceInfo s = Some info \<and> sd_device_id st \<noteq> device_id info)
     \<Longrightarrow> handleStateEvent (Some st) s = s"
  by (auto simp add: handleStateEvent_def)

lemma other_bridge_state_ignored:
  "activeDeviceInfo s = None
    \<or> (\<exists>info. activeDeviceInfo s = Some info \<and> bd_source_device_id b \<noteq> device_id info
          \<and> bd_dest_device_id b \<noteq> selectedDestination s)
     \<Longrightarrow> handleBridgeStateEvent (Some b) s = s"
  by (auto simp add: handleBridgeStateEvent_def)

end
